(* ===== verification/Prelude.thy ===== *)
theory Prelude
  imports Main "HOL-Library.AList"
begin

text \<open>
  Shared vocabulary of the development: the names of the model's types, the
  collections of rewrite rules the component theories fill, and generic lemmas
  on association lists and maps that the components share.  Documents of the
  store are keyed by their id, fields of a document by their name; both are
  JavaScript strings, modelled as \<^typ>\<open>string\<close>.
\<close>

type_synonym docid = string
type_synonym fieldname = string

named_theorems js_simps
  \<open>evaluation rules of the JavaScript value model\<close>
named_theorems store_simps
  \<open>evaluation rules of the document store model\<close>
named_theorems migration_simps
  \<open>evaluation rules of the migration script model\<close>

text \<open>
  Applying a list of field assignments one after the other to a map, where the
  list has no repeated key, is the map overridden by the list read as a map.
\<close>

definition override_with :: "('k \<rightharpoonup> 'v) \<Rightarrow> ('v \<Rightarrow> 'v) \<Rightarrow> ('k \<times> 'v) list \<Rightarrow> ('k \<rightharpoonup> 'v)" where
  "override_with m g xs = (\<lambda>k. case map_of xs k of None \<Rightarrow> m k | Some v \<Rightarrow> Some (g v))"

lemma override_with_Nil [simp]: "override_with m g [] = m"
  by (simp add: override_with_def)

lemma foldl_upd_override:
  "distinct (map fst xs) \<Longrightarrow>
   foldl (\<lambda>m (k, v). m(k \<mapsto> g v)) m xs = override_with m g xs"
proof (induction xs arbitrary: m)
  case Nil
  then show ?case by simp
next
  case (Cons kv xs)
  obtain k v where kv: "kv = (k, v)" by fastforce
  with Cons.prems have "map_of xs k = None" and "distinct (map fst xs)"
    by (auto simp: map_of_eq_None_iff)
  with Cons.IH kv show ?case
    by (auto simp: override_with_def fun_eq_iff split: option.splits)
qed

lemma map_fst_map_snd [simp]: "map fst (map (\<lambda>(i, d). (i, f i d)) xs) = map fst xs"
  by (induction xs) auto

lemma map_of_map_snd:
  "map_of (map (\<lambda>(i, d). (i, f i d)) xs) k = map_option (f k) (map_of xs k)"
  by (induction xs) auto

lemma distinct_AList_update [simp]:
  "distinct (map fst al) \<Longrightarrow> distinct (map fst (AList.update k v al))"
  by (rule distinct_update)

lemma map_fst_AList_update_Nil [simp]: "map fst (AList.update k v []) = [k]"
  by simp

end
