(* ===== verification/JsValue.thy ===== *)
theory JsValue
  imports Prelude
begin

text \<open>
  The JavaScript values the migration script reads from and writes to a
  document (\<open>src/scripts/browser_migration.js\<close>): the values a Firestore
  document field can hold as the web SDK hands them to JavaScript, the
  server-timestamp sentinel \<open>FieldValue.serverTimestamp()\<close>, and
  \<open>undefined\<close> for an absent field.  Numbers are kept as integers with NaN
  apart, which is all the truthiness tests of the script distinguish.  The
  operations are the JavaScript primitives the script uses: truthiness
  (\<open>!x\<close>, \<open>if (x)\<close>), \<open>Array.isArray\<close>, \<open>&&\<close>, \<open>||\<close>, property
  access on \<open>doc.data()\<close>, assignment to a property of a fresh object literal
  and \<open>Object.keys\<close>.
\<close>

datatype jsval =
    JUndefined
  | JNull
  | JBool bool
  | JNumber int
  | JNaN
  | JString string
  | JTimestamp nat
  | JArray "jsval list"
  | JObject "(fieldname \<times> jsval) list"
  | JServerTimestamp

text \<open>A document's data, \<open>doc.data()\<close>: field names to values, absent fields unmapped.\<close>

type_synonym fields = "fieldname \<rightharpoonup> jsval"

text \<open>A JavaScript object built by property assignment, keys in insertion order.\<close>

type_synonym js_object = "(fieldname \<times> jsval) list"

text \<open>ECMAScript ToBoolean: the falsy values are \<open>undefined\<close>, \<open>null\<close>,
  \<open>false\<close>, \<open>0\<close>, \<open>NaN\<close> and the empty string; every object, array,
  timestamp and sentinel is truthy.\<close>

fun truthy :: "jsval \<Rightarrow> bool" where
  "truthy JUndefined = False"
| "truthy JNull = False"
| "truthy (JBool b) = b"
| "truthy (JNumber n) = (n \<noteq> 0)"
| "truthy JNaN = False"
| "truthy (JString s) = (s \<noteq> [])"
| "truthy (JTimestamp _) = True"
| "truthy (JArray _) = True"
| "truthy (JObject _) = True"
| "truthy JServerTimestamp = True"

text \<open>\<open>Array.isArray(x)\<close>.\<close>

fun is_array :: "jsval \<Rightarrow> bool" where
  "is_array (JArray _) = True"
| "is_array _ = False"

text \<open>\<open>a && b\<close> and \<open>a || b\<close>: the operand that decides, not a boolean.\<close>

definition js_and :: "jsval \<Rightarrow> jsval \<Rightarrow> jsval" where
  "js_and a b = (if truthy a then b else a)"

definition js_or :: "jsval \<Rightarrow> jsval \<Rightarrow> jsval" where
  "js_or a b = (if truthy a then a else b)"

text \<open>\<open>data.f\<close>: an absent property reads as \<open>undefined\<close>.\<close>

definition get_field :: "fields \<Rightarrow> fieldname \<Rightarrow> jsval" where
  "get_field d f = (case d f of None \<Rightarrow> JUndefined | Some v \<Rightarrow> v)"

text \<open>\<open>o.f = v\<close>: overwrite the property in place, or append it as the last key.\<close>

definition obj_set :: "js_object \<Rightarrow> fieldname \<Rightarrow> jsval \<Rightarrow> js_object" where
  "obj_set obj f v = AList.update f v obj"

text \<open>\<open>Object.keys(o)\<close>.\<close>

definition obj_keys :: "js_object \<Rightarrow> fieldname list" where
  "obj_keys obj = map fst obj"

lemma truthy_js_and [js_simps]: "truthy (js_and a b) \<longleftrightarrow> truthy a \<and> truthy b"
  by (simp add: js_and_def)

lemma truthy_JBool_and [js_simps]: "truthy (js_and (JBool p) b) \<longleftrightarrow> p \<and> truthy b"
  by (simp add: js_and_def)

lemma js_or_truthy [js_simps]: "truthy a \<Longrightarrow> js_or a b = a"
  by (simp add: js_or_def)

lemma js_or_falsy [js_simps]: "\<not> truthy a \<Longrightarrow> js_or a b = b"
  by (simp add: js_or_def)

lemma truthy_js_or [js_simps]: "truthy (js_or a b) \<longleftrightarrow> truthy a \<or> truthy b"
  by (simp add: js_or_def)

lemma get_field_Some [js_simps]: "d f = Some v \<Longrightarrow> get_field d f = v"
  by (simp add: get_field_def)

lemma get_field_None [js_simps]: "d f = None \<Longrightarrow> get_field d f = JUndefined"
  by (simp add: get_field_def)

lemma get_field_upd [js_simps]:
  "get_field (d(g \<mapsto> v)) f = (if f = g then v else get_field d f)"
  by (simp add: get_field_def)

lemma get_field_empty [js_simps]: "get_field Map.empty f = JUndefined"
  by (simp add: get_field_def)

lemma truthy_get_field_present: "truthy (get_field d f) \<Longrightarrow> \<exists>v. d f = Some v"
  by (cases "d f") (auto simp: get_field_def)

lemma is_array_get_field_present: "is_array (get_field d f) \<Longrightarrow> \<exists>v. d f = Some v"
  by (cases "d f") (auto simp: get_field_def)

lemma obj_set_Nil [js_simps]: "obj_set [] f v = [(f, v)]"
  by (simp add: obj_set_def)

lemma obj_set_other [js_simps]: "f \<notin> set (obj_keys obj) \<Longrightarrow> obj_set obj f v = obj @ [(f, v)]"
  by (induction obj) (auto simp: obj_set_def obj_keys_def)

lemma obj_keys_simps [js_simps]: "obj_keys [] = []" "obj_keys (obj @ [(f, v)]) = obj_keys obj @ [f]"
  "obj_keys ((f, v) # obj) = f # obj_keys obj"
  by (simp_all add: obj_keys_def)

end
