(* ===== verification/Firestore.thy ===== *)
theory Firestore
  imports JsValue
begin

text \<open>
  The document store the script talks to through the global \<open>firebase\<close>
  handle: the \<open>conversations\<close> collection, its \<open>get()\<close>, and the write batch
  (\<open>firestore().batch()\<close>, \<open>batch.update(ref, data)\<close>, \<open>batch.commit()\<close>).
  This is library code, not part of the repository; it is modelled from the
  contract the specification states for it (\<open>spec.md\<close> sections 3, 6 and 7):
  a read of the whole collection that may fail, and an all-or-nothing batch
  whose updates need an existing document, which the store may reject, and in
  which the server-timestamp sentinel becomes the commit time.
  The environment \<open>store_env\<close> injects the store's failures and its clock.
\<close>

datatype fs_error =
    FetchFailed
  | CommitRejected
  | NotFound docid

text \<open>The collection in the order \<open>get()\<close> returns it: document id and data.\<close>

type_synonym collection = "(docid \<times> fields) list"

record store =
  conversations :: collection

record store_env =
  fetch_ok :: bool
  commit_ok :: bool
  write_limit :: nat
  commit_time :: nat

text \<open>A write batch: the staged updates, in the order they were staged.\<close>

type_synonym write_batch = "(docid \<times> js_object) list"

text \<open>The store's own invariant: document ids are unique in a collection.\<close>

definition wf_store :: "store \<Rightarrow> bool" where
  "wf_store s \<longleftrightarrow> distinct (map fst (conversations s))"

definition collection_get :: "store_env \<Rightarrow> store \<Rightarrow> fs_error + collection" where
  "collection_get e s = (if fetch_ok e then Inr (conversations s) else Inl FetchFailed)"

definition new_batch :: write_batch where
  "new_batch = []"

definition batch_update :: "write_batch \<Rightarrow> docid \<Rightarrow> js_object \<Rightarrow> write_batch" where
  "batch_update b r u = b @ [(r, u)]"

text \<open>The server replaces the sentinel by the commit time when it applies a write.\<close>

fun resolve_sentinel :: "nat \<Rightarrow> jsval \<Rightarrow> jsval" where
  "resolve_sentinel t JServerTimestamp = JTimestamp t"
| "resolve_sentinel t v = v"

definition update_fields :: "nat \<Rightarrow> js_object \<Rightarrow> fields \<Rightarrow> fields" where
  "update_fields t u d = foldl (\<lambda>m (k, v). m(k \<mapsto> resolve_sentinel t v)) d u"

fun update_doc :: "nat \<Rightarrow> docid \<Rightarrow> js_object \<Rightarrow> collection \<Rightarrow> fs_error + collection" where
  "update_doc t r u [] = Inl (NotFound r)"
| "update_doc t r u ((i, d) # c) =
     (if i = r then Inr ((i, update_fields t u d) # c)
      else (case update_doc t r u c of Inl err \<Rightarrow> Inl err | Inr c' \<Rightarrow> Inr ((i, d) # c')))"

fun apply_writes :: "nat \<Rightarrow> write_batch \<Rightarrow> collection \<Rightarrow> fs_error + collection" where
  "apply_writes t [] c = Inr c"
| "apply_writes t ((r, u) # b) c =
     (case update_doc t r u c of Inl err \<Rightarrow> Inl err | Inr c' \<Rightarrow> apply_writes t b c')"

definition batch_commit :: "store_env \<Rightarrow> write_batch \<Rightarrow> store \<Rightarrow> fs_error + store" where
  "batch_commit e b s =
     (if \<not> commit_ok e \<or> write_limit e < length b then Inl CommitRejected
      else (case apply_writes (commit_time e) b (conversations s) of
              Inl err \<Rightarrow> Inl err
            | Inr c \<Rightarrow> Inr (s\<lparr>conversations := c\<rparr>)))"

text \<open>The effect of a batch on one document, read as a whole: the document with
  the updates staged for it applied.\<close>

definition batch_effect :: "nat \<Rightarrow> write_batch \<Rightarrow> collection \<Rightarrow> collection" where
  "batch_effect t b c =
     map (\<lambda>(i, d). (i, case map_of b i of None \<Rightarrow> d | Some u \<Rightarrow> update_fields t u d)) c"

lemma update_fields_distinct:
  "distinct (map fst u) \<Longrightarrow> update_fields t u d = override_with d (resolve_sentinel t) u"
  unfolding update_fields_def by (rule foldl_upd_override)

lemma update_doc_ids:
  "update_doc t r u c = Inr c' \<Longrightarrow> map fst c' = map fst c"
  by (induction c arbitrary: c' rule: update_doc.induct) (auto split: if_splits sum.splits)

lemma update_doc_Inl:
  "update_doc t r u c = Inl err \<longleftrightarrow> err = NotFound r \<and> r \<notin> set (map fst c)"
  by (induction c rule: update_doc.induct) (auto split: sum.splits)

lemma update_doc_distinct:
  "distinct (map fst c) \<Longrightarrow> r \<in> set (map fst c) \<Longrightarrow>
   update_doc t r u c = Inr (map (\<lambda>(i, d). (i, if i = r then update_fields t u d else d)) c)"
proof (induction c)
  case Nil
  then show ?case by simp
next
  case (Cons id c)
  obtain i d where id: "id = (i, d)" by fastforce
  show ?case
  proof (cases "i = r")
    case True
    with Cons.prems id have "r \<notin> set (map fst c)" by auto
    then have "map (\<lambda>(i, d). (i, if i = r then update_fields t u d else d)) c = c"
      by (induction c) auto
    with True id show ?thesis by simp
  next
    case False
    with Cons id show ?thesis by auto
  qed
qed

lemma apply_writes_ids:
  "apply_writes t b c = Inr c' \<Longrightarrow> map fst c' = map fst c"
  by (induction t b c rule: apply_writes.induct)
    (auto split: sum.splits dest: update_doc_ids)

lemma batch_effect_Nil [simp]: "batch_effect t [] c = c"
  by (induction c) (auto simp: batch_effect_def)

lemma batch_effect_Cons:
  "r \<notin> set (map fst b) \<Longrightarrow>
   batch_effect t ((r, u) # b) c =
   batch_effect t b (map (\<lambda>(i, d). (i, if i = r then update_fields t u d else d)) c)"
proof -
  assume "r \<notin> set (map fst b)"
  then have "map_of b r = None" by (simp add: map_of_eq_None_iff)
  then show ?thesis by (induction c) (auto simp: batch_effect_def)
qed

lemma apply_writes_effect:
  "distinct (map fst c) \<Longrightarrow> distinct (map fst b) \<Longrightarrow> set (map fst b) \<subseteq> set (map fst c) \<Longrightarrow>
   apply_writes t b c = Inr (batch_effect t b c)"
proof (induction b arbitrary: c)
  case Nil
  then show ?case by simp
next
  case (Cons ru b)
  obtain r u where ru: "ru = (r, u)" by fastforce
  let ?c' = "map (\<lambda>(i, d). (i, if i = r then update_fields t u d else d)) c"
  from Cons.prems ru have r: "r \<in> set (map fst c)" by auto
  have upd: "update_doc t r u c = Inr ?c'"
    using Cons.prems(1) r by (rule update_doc_distinct)
  have ids: "map fst ?c' = map fst c" by (induction c) auto
  have "distinct (map fst ?c')" using Cons.prems(1) unfolding ids .
  moreover have "distinct (map fst b)" using Cons.prems(2) ru by simp
  moreover have "set (map fst b) \<subseteq> set (map fst ?c')" using Cons.prems(3) ru unfolding ids by auto
  ultimately have "apply_writes t b ?c' = Inr (batch_effect t b ?c')" by (rule Cons.IH)
  with Cons.prems ru upd show ?case by (simp add: batch_effect_Cons)
qed

lemma batch_commit_Inr:
  "batch_commit e b s = Inr s' \<longleftrightarrow>
   commit_ok e \<and> length b \<le> write_limit e \<and>
   (\<exists>c. apply_writes (commit_time e) b (conversations s) = Inr c \<and> s' = s\<lparr>conversations := c\<rparr>)"
  by (auto simp: batch_commit_def split: sum.splits)

lemma batch_commit_ids:
  "batch_commit e b s = Inr s' \<Longrightarrow> map fst (conversations s') = map fst (conversations s)"
  by (auto simp: batch_commit_Inr dest: apply_writes_ids)

lemma batch_commit_wf:
  "wf_store s \<Longrightarrow> batch_commit e b s = Inr s' \<Longrightarrow> wf_store s'"
  by (simp add: wf_store_def batch_commit_ids)

lemma batch_update_simps [store_simps]:
  "new_batch = []" "batch_update b r u = b @ [(r, u)]"
  by (simp_all add: new_batch_def batch_update_def)

lemma collection_get_simps [store_simps]:
  "fetch_ok e \<Longrightarrow> collection_get e s = Inr (conversations s)"
  "\<not> fetch_ok e \<Longrightarrow> collection_get e s = Inl FetchFailed"
  by (simp_all add: collection_get_def)

lemma apply_writes_missing:
  "r \<in> set (map fst b) \<Longrightarrow> r \<notin> set (map fst c) \<Longrightarrow> \<exists>err. apply_writes t b c = Inl err"
proof (induction t b c rule: apply_writes.induct)
  case (1 t c)
  then show ?case by simp
next
  case (2 t r' u b c)
  show ?case
  proof (cases "update_doc t r' u c")
    case (Inl err)
    then show ?thesis by simp
  next
    case (Inr c')
    have "r' \<noteq> r"
    proof
      assume "r' = r"
      with "2.prems"(2) have "update_doc t r' u c = Inl (NotFound r')" by (simp add: update_doc_Inl)
      with Inr show False by simp
    qed
    with "2.prems" Inr update_doc_ids [OF Inr] have "\<exists>err. apply_writes t b c' = Inl err"
      by (intro "2.IH") auto
    with Inr show ?thesis by simp
  qed
qed

text \<open>The batch is applied as a whole: for a well-formed store and a
  batch that names each document at most once and only existing documents,
  a commit the store accepts replaces every named document by that document
  with its staged fields set, in one step, and leaves the others untouched;
  the order of the staged writes does not matter.\<close>

theorem batch_commit_effect:
  assumes "wf_store s" and "commit_ok e" and "length b \<le> write_limit e"
    and "distinct (map fst b)" and "set (map fst b) \<subseteq> set (map fst (conversations s))"
  shows "batch_commit e b s = Inr (s\<lparr>conversations := batch_effect (commit_time e) b (conversations s)\<rparr>)"
  using assms by (simp add: batch_commit_def wf_store_def apply_writes_effect)

theorem batch_commit_effect_witness:
  "batch_commit \<lparr>fetch_ok = True, commit_ok = True, write_limit = 1, commit_time = 9\<rparr>
     [(''a'', [(''updatedAt'', JServerTimestamp)])]
     \<lparr>conversations = [(''a'', Map.empty), (''b'', Map.empty)]\<rparr> =
   Inr \<lparr>conversations = [(''a'', [''updatedAt'' \<mapsto> JTimestamp 9]), (''b'', Map.empty)]\<rparr>"
  using batch_commit_effect [of "\<lparr>conversations = [(''a'', Map.empty), (''b'', Map.empty)]\<rparr>"
      "\<lparr>fetch_ok = True, commit_ok = True, write_limit = 1, commit_time = 9\<rparr>"
      "[(''a'', [(''updatedAt'', JServerTimestamp)])]"]
  by (simp add: wf_store_def batch_effect_def update_fields_def)

text \<open>A staged update whose document is no longer in the store (deleted
  by another writer between the read and the commit) makes the whole commit
  fail.\<close>

theorem commit_missing_doc_fails:
  assumes "r \<in> set (map fst b)" and "r \<notin> set (map fst (conversations s))"
  shows "\<exists>err. batch_commit e b s = Inl err"
  using apply_writes_missing [OF assms, of "commit_time e"]
  by (auto simp: batch_commit_def)

theorem commit_missing_doc_fails_witness:
  "batch_commit \<lparr>fetch_ok = True, commit_ok = True, write_limit = 5, commit_time = 9\<rparr>
     [(''a'', [(''updatedAt'', JTimestamp 1)]), (''gone'', [(''updatedAt'', JTimestamp 1)])]
     \<lparr>conversations = [(''a'', Map.empty)]\<rparr> = Inl (NotFound ''gone'')"
proof -
  have "\<exists>err. batch_commit \<lparr>fetch_ok = True, commit_ok = True, write_limit = 5, commit_time = 9\<rparr>
     [(''a'', [(''updatedAt'', JTimestamp 1)]), (''gone'', [(''updatedAt'', JTimestamp 1)])]
     \<lparr>conversations = [(''a'', Map.empty)]\<rparr> = Inl err"
    by (rule commit_missing_doc_fails [where r = "''gone''"]) simp_all
  then show ?thesis by (simp add: batch_commit_def)
qed

end
