(* ===== verification/Migration.thy ===== *)
theory Migration
  imports Firestore
begin

text \<open>
  The script \<open>src/scripts/browser_migration.js\<close>, function
  \<open>migrateConversations\<close>.  The console is part of the observable state: each
  \<open>console.log\<close> and \<open>console.error\<close> call is one \<open>log_event\<close>, carrying
  the values the message interpolates.  The \<open>forEach\<close> callback is
  \<open>visit_doc\<close>, with its decision for one document (lines 16 to 32) split off as
  \<open>doc_plan\<close>; the loop is \<open>visit_docs\<close>; the body of the \<open>try\<close> block is
  \<open>migrate_try\<close>, whose result records how the block ended (an error, or the
  count of updated documents it logged), and \<open>migrateConversations\<close> adds the
  \<open>catch\<close>, whose only effect is a console message: the promise the function
  returns resolves to \<open>undefined\<close> whatever happened, so the run result holds
  only the store and the console.
\<close>

datatype log_event =
    LogStart
  | LogFound nat
  | LogParticipants docid jsval jsval
  | LogUpdatedAt docid
  | LogDone nat
  | LogNothingToDo
  | LogError fs_error

text \<open>The local state of the try block: \<open>batch\<close>, \<open>updated\<close>, and the console.\<close>

record loop_state =
  ls_batch :: write_batch
  ls_updated :: nat
  ls_log :: "log_event list"

record run_result =
  final_store :: store
  console :: "log_event list"

definition needs_participants :: "fields \<Rightarrow> bool" where
  "needs_participants data \<longleftrightarrow> \<not> is_array (get_field data ''participants'')"

definition needs_updated_at :: "fields \<Rightarrow> bool" where
  "needs_updated_at data \<longleftrightarrow> \<not> truthy (get_field data ''updatedAt'')"

text \<open>Lines 21 to 31: the \<open>updates\<close> object built for one document, and the
  messages logged while building it.\<close>

definition doc_plan :: "docid \<Rightarrow> fields \<Rightarrow> js_object \<times> log_event list" where
  "doc_plan i data =
     (let np = needs_participants data;
          nu = needs_updated_at data;
          seller = get_field data ''sellerId'';
          buyer = get_field data ''buyerId'';
          (u1, l1) =
            (if truthy (js_and (js_and (JBool np) seller) buyer)
             then (obj_set [] ''participants'' (JArray [seller, buyer]), [LogParticipants i seller buyer])
             else ([], []));
          (u2, l2) =
            (if nu
             then (obj_set u1 ''updatedAt'' (js_or (get_field data ''createdAt'') JServerTimestamp),
                   [LogUpdatedAt i])
             else (u1, []))
      in (u2, l1 @ l2))"

text \<open>Lines 15 to 37: the \<open>forEach\<close> callback.\<close>

definition visit_doc :: "loop_state \<Rightarrow> docid \<times> fields \<Rightarrow> loop_state" where
  "visit_doc st doc =
     (case doc of (i, data) \<Rightarrow>
        if needs_participants data \<or> needs_updated_at data then
          (case doc_plan i data of (updates, msgs) \<Rightarrow>
             if 0 < length (obj_keys updates)
             then st\<lparr>ls_batch := batch_update (ls_batch st) i updates,
                     ls_updated := Suc (ls_updated st),
                     ls_log := ls_log st @ msgs\<rparr>
             else st\<lparr>ls_log := ls_log st @ msgs\<rparr>)
        else st)"

fun visit_docs :: "loop_state \<Rightarrow> (docid \<times> fields) list \<Rightarrow> loop_state" where
  "visit_docs st [] = st"
| "visit_docs st (doc # docs) = visit_docs (visit_doc st doc) docs"

text \<open>Lines 7 to 46: the try block.\<close>

definition migrate_try :: "store_env \<Rightarrow> store \<Rightarrow> (fs_error + nat) \<times> store \<times> log_event list" where
  "migrate_try e s =
     (case collection_get e s of
        Inl err \<Rightarrow> (Inl err, s, [])
      | Inr docs \<Rightarrow>
          (let st = visit_docs \<lparr>ls_batch = new_batch, ls_updated = 0,
                                ls_log = [LogFound (length docs)]\<rparr> docs
           in if 0 < ls_updated st then
                (case batch_commit e (ls_batch st) s of
                   Inl err \<Rightarrow> (Inl err, s, ls_log st)
                 | Inr s' \<Rightarrow> (Inr (ls_updated st), s', ls_log st @ [LogDone (ls_updated st)]))
              else (Inr 0, s, ls_log st @ [LogNothingToDo])))"

text \<open>Lines 4 to 50: the whole function, with the catch.\<close>

definition migrateConversations :: "store_env \<Rightarrow> store \<Rightarrow> run_result" where
  "migrateConversations e s =
     (case migrate_try e s of (r, s', msgs) \<Rightarrow>
        \<lparr>final_store = s',
         console = LogStart # msgs @ (case r of Inl err \<Rightarrow> [LogError err] | Inr _ \<Rightarrow> [])\<rparr>)"

text \<open>What the loop stages, read document by document: the writes of the batch
  and the messages of the console, as a function of the snapshot.\<close>

definition staged_writes :: "(docid \<times> fields) list \<Rightarrow> write_batch" where
  "staged_writes docs =
     map (\<lambda>(i, d). (i, fst (doc_plan i d))) (filter (\<lambda>(i, d). fst (doc_plan i d) \<noteq> []) docs)"

definition staged_log :: "(docid \<times> fields) list \<Rightarrow> log_event list" where
  "staged_log docs = concat (map (\<lambda>(i, d). snd (doc_plan i d)) docs)"

text \<open>The invariant of the loop state, relative to the ids of the documents
  visited so far: the batch names each of them at most once and nothing else,
  and \<open>updated\<close> counts its writes.\<close>

definition batch_inv :: "docid set \<Rightarrow> loop_state \<Rightarrow> bool" where
  "batch_inv seen st \<longleftrightarrow>
     distinct (map fst (ls_batch st)) \<and> set (map fst (ls_batch st)) \<subseteq> seen \<and>
     ls_updated st = length (ls_batch st)"

lemma doc_plan_fst [migration_simps]:
  "fst (doc_plan i d) =
     (if needs_participants d \<and> truthy (get_field d ''sellerId'') \<and> truthy (get_field d ''buyerId'')
      then [(''participants'', JArray [get_field d ''sellerId'', get_field d ''buyerId''])] else []) @
     (if needs_updated_at d
      then [(''updatedAt'', js_or (get_field d ''createdAt'') JServerTimestamp)] else [])"
  by (simp add: doc_plan_def Let_def js_simps obj_set_def split: prod.splits)

lemma doc_plan_snd [migration_simps]:
  "snd (doc_plan i d) =
     (if needs_participants d \<and> truthy (get_field d ''sellerId'') \<and> truthy (get_field d ''buyerId'')
      then [LogParticipants i (get_field d ''sellerId'') (get_field d ''buyerId'')] else []) @
     (if needs_updated_at d then [LogUpdatedAt i] else [])"
  by (simp add: doc_plan_def Let_def js_simps obj_set_def split: prod.splits)

lemma doc_plan_keys_distinct: "distinct (map fst (fst (doc_plan i d)))"
  by (auto simp: doc_plan_fst)

lemma doc_plan_idle:
  "\<not> needs_participants d \<Longrightarrow> \<not> needs_updated_at d \<Longrightarrow> doc_plan i d = ([], [])"
  by (simp add: prod_eq_iff doc_plan_fst doc_plan_snd)

lemma visit_doc_eq:
  "visit_doc st (i, d) =
     (if fst (doc_plan i d) \<noteq> []
      then st\<lparr>ls_batch := ls_batch st @ [(i, fst (doc_plan i d))],
              ls_updated := Suc (ls_updated st),
              ls_log := ls_log st @ snd (doc_plan i d)\<rparr>
      else st\<lparr>ls_log := ls_log st @ snd (doc_plan i d)\<rparr>)"
proof (cases "needs_participants d \<or> needs_updated_at d")
  case True
  then show ?thesis
    by (cases "doc_plan i d") (auto simp: visit_doc_def obj_keys_def store_simps)
next
  case False
  then show ?thesis by (simp add: visit_doc_def doc_plan_idle)
qed

lemma visit_docs_eq:
  "visit_docs st docs =
     st\<lparr>ls_batch := ls_batch st @ staged_writes docs,
        ls_updated := ls_updated st + length (staged_writes docs),
        ls_log := ls_log st @ staged_log docs\<rparr>"
proof (induction docs arbitrary: st)
  case Nil
  then show ?case by (simp add: staged_writes_def staged_log_def)
next
  case (Cons doc docs)
  obtain i d where "doc = (i, d)" by fastforce
  with Cons.IH show ?case
    by (simp add: visit_doc_eq staged_writes_def staged_log_def)
qed

lemma staged_writes_fst:
  "map fst (staged_writes docs) = map fst (filter (\<lambda>(i, d). fst (doc_plan i d) \<noteq> []) docs)"
  by (induction docs) (auto simp: staged_writes_def)

lemma staged_writes_ids: "set (map fst (staged_writes docs)) \<subseteq> set (map fst docs)"
  by (auto simp: staged_writes_fst)

lemma staged_writes_distinct:
  "distinct (map fst docs) \<Longrightarrow> distinct (map fst (staged_writes docs))"
  by (simp add: staged_writes_fst distinct_map_filter)

lemma map_of_staged_writes:
  "distinct (map fst docs) \<Longrightarrow>
   map_of (staged_writes docs) i =
     (case map_of docs i of None \<Rightarrow> None
      | Some d \<Rightarrow> if fst (doc_plan i d) = [] then None else Some (fst (doc_plan i d)))"
proof (induction docs)
  case Nil
  then show ?case by (simp add: staged_writes_def)
next
  case (Cons doc docs)
  obtain j d where doc: "doc = (j, d)" by fastforce
  from Cons.prems doc have "map_of docs j = None" and "distinct (map fst docs)"
    by (auto simp: map_of_eq_None_iff)
  with Cons.IH doc show ?case
    by (auto simp: staged_writes_def)
qed

lemma migrate_try_eq:
  "migrate_try e s =
     (if \<not> fetch_ok e then (Inl FetchFailed, s, [])
      else
        (let w = staged_writes (conversations s);
             msgs = LogFound (length (conversations s)) # staged_log (conversations s)
         in if w = [] then (Inr 0, s, msgs @ [LogNothingToDo])
            else (case batch_commit e w s of
                    Inl err \<Rightarrow> (Inl err, s, msgs)
                  | Inr s' \<Rightarrow> (Inr (length w), s', msgs @ [LogDone (length w)]))))"
  by (simp add: migrate_try_def visit_docs_eq store_simps Let_def split: sum.split)

lemma migrateConversations_eq:
  "migrateConversations e s =
     (if \<not> fetch_ok e then \<lparr>final_store = s, console = [LogStart, LogError FetchFailed]\<rparr>
      else
        (let w = staged_writes (conversations s);
             msgs = LogStart # LogFound (length (conversations s)) # staged_log (conversations s)
         in if w = [] then \<lparr>final_store = s, console = msgs @ [LogNothingToDo]\<rparr>
            else (case batch_commit e w s of
                    Inl err \<Rightarrow> \<lparr>final_store = s, console = msgs @ [LogError err]\<rparr>
                  | Inr s' \<Rightarrow> \<lparr>final_store = s', console = msgs @ [LogDone (length w)]\<rparr>)))"
  by (simp add: migrateConversations_def migrate_try_eq Let_def split: sum.splits)

lemma staged_idle:
  "\<forall>(i, d) \<in> set docs. \<not> needs_participants d \<and> \<not> needs_updated_at d \<Longrightarrow>
   staged_writes docs = [] \<and> staged_log docs = []"
  by (induction docs) (auto simp: staged_writes_def staged_log_def doc_plan_idle)

lemma staged_writes_Nil_iff:
  "staged_writes docs = [] \<longleftrightarrow> (\<forall>(i, d) \<in> set docs. fst (doc_plan i d) = [])"
  by (auto simp: staged_writes_def filter_empty_conv)

lemma staged_log_no_error: "LogError err \<notin> set (staged_log docs)"
  by (auto simp: staged_log_def doc_plan_snd)

lemma run_store_cases:
  "final_store (migrateConversations e s) = s \<or>
   (fetch_ok e \<and> staged_writes (conversations s) \<noteq> [] \<and>
    batch_commit e (staged_writes (conversations s)) s = Inr (final_store (migrateConversations e s)) \<and>
    console (migrateConversations e s) =
      LogStart # LogFound (length (conversations s)) # staged_log (conversations s) @
      [LogDone (length (staged_writes (conversations s)))])"
  by (auto simp: migrateConversations_eq Let_def split: sum.splits)

text \<open>C2. Ordering contract (lines 23 and 24): a document that needs
  \<open>participants\<close> and has a truthy \<open>sellerId\<close> and \<open>buyerId\<close> is given
  the two-element array with the seller first and the buyer second.\<close>

theorem participants_seller_first:
  assumes "needs_participants d"
    and "truthy (get_field d ''sellerId'')" and "truthy (get_field d ''buyerId'')"
  shows "map_of (fst (doc_plan i d)) ''participants'' =
           Some (JArray [get_field d ''sellerId'', get_field d ''buyerId''])"
  using assms by (simp add: doc_plan_fst)

theorem participants_seller_first_witness:
  "map_of (fst (doc_plan ''c1'' [''sellerId'' \<mapsto> JString ''S1'', ''buyerId'' \<mapsto> JString ''B1'']))
     ''participants'' = Some (JArray [JString ''S1'', JString ''B1''])"
  using participants_seller_first [of "[''sellerId'' \<mapsto> JString ''S1'', ''buyerId'' \<mapsto> JString ''B1'']" "''c1''"]
  by (simp add: needs_participants_def js_simps)

text \<open>C5. Selective update: a document whose \<open>participants\<close> is already an
  array and whose \<open>updatedAt\<close> is falsy gets exactly one update,
  \<open>updatedAt\<close> set to \<open>createdAt || serverTimestamp()\<close>, and one message.\<close>

theorem selective_updated_at:
  assumes "is_array (get_field d ''participants'')" and "\<not> truthy (get_field d ''updatedAt'')"
  shows "doc_plan i d =
           ([(''updatedAt'', js_or (get_field d ''createdAt'') JServerTimestamp)], [LogUpdatedAt i])"
  using assms by (simp add: prod_eq_iff doc_plan_fst doc_plan_snd needs_participants_def needs_updated_at_def)

theorem selective_updated_at_witness:
  "doc_plan ''c2'' [''participants'' \<mapsto> JArray [], ''createdAt'' \<mapsto> JTimestamp 5] =
     ([(''updatedAt'', JTimestamp 5)], [LogUpdatedAt ''c2''])"
  using selective_updated_at [of "[''participants'' \<mapsto> JArray [], ''createdAt'' \<mapsto> JTimestamp 5]" "''c2''"]
  by (simp add: js_simps)

text \<open>C6. Skip on incomplete data: when \<open>sellerId\<close> or \<open>buyerId\<close> is falsy
  (absent, \<open>null\<close>, the empty string, ...), the update never contains
  \<open>participants\<close> and no participants message is logged, whatever the
  document's \<open>participants\<close> field holds.\<close>

theorem incomplete_ids_no_participants:
  assumes "\<not> truthy (get_field d ''sellerId'') \<or> \<not> truthy (get_field d ''buyerId'')"
  shows "''participants'' \<notin> set (obj_keys (fst (doc_plan i d))) \<and>
         (\<forall>a b. LogParticipants i a b \<notin> set (snd (doc_plan i d)))"
  using assms by (auto simp: doc_plan_fst doc_plan_snd obj_keys_def)

theorem incomplete_ids_no_participants_witness:
  "''participants'' \<notin> set (obj_keys (fst (doc_plan ''c3'' [''sellerId'' \<mapsto> JString [], ''buyerId'' \<mapsto> JString ''B'']))) \<and>
   (\<forall>a b. LogParticipants ''c3'' a b \<notin> set (snd (doc_plan ''c3'' [''sellerId'' \<mapsto> JString [], ''buyerId'' \<mapsto> JString ''B''])))"
  using incomplete_ids_no_participants [of "[''sellerId'' \<mapsto> JString [], ''buyerId'' \<mapsto> JString ''B'']" "''c3''"]
  by (simp add: js_simps)

text \<open>C7. No-op success: when every document already has an array
  \<open>participants\<close> and a truthy \<open>updatedAt\<close>, the run issues no write (so it
  succeeds even against a store that would reject a commit), leaves the store
  as it was and reports that nothing was needed.\<close>

theorem schema_complete_noop:
  assumes "fetch_ok e"
    and "\<forall>(i, d) \<in> set (conversations s).
           is_array (get_field d ''participants'') \<and> truthy (get_field d ''updatedAt'')"
  shows "migrateConversations e s =
           \<lparr>final_store = s, console = [LogStart, LogFound (length (conversations s)), LogNothingToDo]\<rparr>"
proof -
  from assms(2) have "staged_writes (conversations s) = [] \<and> staged_log (conversations s) = []"
    by (intro staged_idle) (auto simp: needs_participants_def needs_updated_at_def)
  with assms(1) show ?thesis by (simp add: migrateConversations_eq)
qed

theorem schema_complete_noop_witness:
  "migrateConversations \<lparr>fetch_ok = True, commit_ok = False, write_limit = 0, commit_time = 7\<rparr>
     \<lparr>conversations = [(''c1'', [''participants'' \<mapsto> JArray [], ''updatedAt'' \<mapsto> JTimestamp 3])]\<rparr> =
   \<lparr>final_store = \<lparr>conversations = [(''c1'', [''participants'' \<mapsto> JArray [], ''updatedAt'' \<mapsto> JTimestamp 3])]\<rparr>,
    console = [LogStart, LogFound 1, LogNothingToDo]\<rparr>"
  using schema_complete_noop [of "\<lparr>fetch_ok = True, commit_ok = False, write_limit = 0, commit_time = 7\<rparr>"
      "\<lparr>conversations = [(''c1'', [''participants'' \<mapsto> JArray [], ''updatedAt'' \<mapsto> JTimestamp 3])]\<rparr>"]
  by (simp add: js_simps)

text \<open>C8. Fetch failure: when \<open>get()\<close> fails the error is caught and logged,
  nothing is written, and the run ends with no other message.\<close>

theorem fetch_failure_result:
  "\<not> fetch_ok e \<Longrightarrow>
   migrateConversations e s = \<lparr>final_store = s, console = [LogStart, LogError FetchFailed]\<rparr>"
  by (simp add: migrateConversations_eq)

theorem fetch_failure_result_witness:
  "migrateConversations \<lparr>fetch_ok = False, commit_ok = True, write_limit = 500, commit_time = 7\<rparr>
     \<lparr>conversations = []\<rparr> =
   \<lparr>final_store = \<lparr>conversations = []\<rparr>, console = [LogStart, LogError FetchFailed]\<rparr>"
  using fetch_failure_result [of "\<lparr>fetch_ok = False, commit_ok = True, write_limit = 500, commit_time = 7\<rparr>"]
  by simp

text \<open>C4. Atomicity as the caller sees it: whenever the console reports an
  error (a failed read, or a commit the store rejects or cannot apply), the
  store is exactly as it was before the run.\<close>

theorem failed_run_keeps_store:
  assumes "LogError err \<in> set (console (migrateConversations e s))"
  shows "final_store (migrateConversations e s) = s"
  using assms run_store_cases [of e s] by (auto simp: staged_log_no_error)

theorem failed_run_keeps_store_witness:
  "LogError CommitRejected \<in> set (console (migrateConversations
      \<lparr>fetch_ok = True, commit_ok = False, write_limit = 500, commit_time = 7\<rparr>
      \<lparr>conversations = [(''c1'', [''createdAt'' \<mapsto> JTimestamp 5])]\<rparr>)) \<and>
   final_store (migrateConversations
      \<lparr>fetch_ok = True, commit_ok = False, write_limit = 500, commit_time = 7\<rparr>
      \<lparr>conversations = [(''c1'', [''createdAt'' \<mapsto> JTimestamp 5])]\<rparr>) =
   \<lparr>conversations = [(''c1'', [''createdAt'' \<mapsto> JTimestamp 5])]\<rparr>"
proof -
  let ?e = "\<lparr>fetch_ok = True, commit_ok = False, write_limit = 500, commit_time = 7\<rparr>"
  let ?s = "\<lparr>conversations = [(''c1'', [''createdAt'' \<mapsto> JTimestamp (5::nat)])]\<rparr>"
  have err: "LogError CommitRejected \<in> set (console (migrateConversations ?e ?s))"
    by (simp add: migrateConversations_eq staged_writes_def doc_plan_fst needs_participants_def
        needs_updated_at_def js_simps batch_commit_def)
  then show ?thesis using failed_run_keeps_store [OF err] by simp
qed

text \<open>C9. The count the run reports: after a successful commit the last
  message is \<open>LogDone n\<close>, where \<open>n\<close> is the number of documents whose update
  object is not empty, which is also the number of writes in the committed batch.\<close>

theorem done_count:
  assumes "fetch_ok e" and "staged_writes (conversations s) \<noteq> []"
    and "batch_commit e (staged_writes (conversations s)) s = Inr s'"
  shows "final_store (migrateConversations e s) = s' \<and>
         last (console (migrateConversations e s)) =
           LogDone (length (filter (\<lambda>(i, d). fst (doc_plan i d) \<noteq> []) (conversations s)))"
  using assms by (simp add: migrateConversations_eq staged_writes_def)

theorem done_count_witness:
  "final_store (migrateConversations
      \<lparr>fetch_ok = True, commit_ok = True, write_limit = 500, commit_time = 7\<rparr>
      \<lparr>conversations = [(''c1'', [''createdAt'' \<mapsto> JTimestamp 5])]\<rparr>) =
     \<lparr>conversations = [(''c1'', [''createdAt'' \<mapsto> JTimestamp 5, ''updatedAt'' \<mapsto> JTimestamp 5])]\<rparr> \<and>
   last (console (migrateConversations
      \<lparr>fetch_ok = True, commit_ok = True, write_limit = 500, commit_time = 7\<rparr>
      \<lparr>conversations = [(''c1'', [''createdAt'' \<mapsto> JTimestamp 5])]\<rparr>)) = LogDone 1"
proof -
  let ?e = "\<lparr>fetch_ok = True, commit_ok = True, write_limit = 500, commit_time = 7\<rparr>"
  let ?s = "\<lparr>conversations = [(''c1'', [''createdAt'' \<mapsto> JTimestamp (5::nat)])]\<rparr>"
  have w: "staged_writes [(''c1'', [''createdAt'' \<mapsto> JTimestamp (5::nat)])] =
      [(''c1'', [(''updatedAt'', JTimestamp 5)])]"
    by (simp add: staged_writes_def doc_plan_fst needs_participants_def needs_updated_at_def js_simps)
  have c: "batch_commit ?e (staged_writes (conversations ?s)) ?s =
      Inr \<lparr>conversations = [(''c1'', [''createdAt'' \<mapsto> JTimestamp 5, ''updatedAt'' \<mapsto> JTimestamp 5])]\<rparr>"
    by (simp add: w batch_commit_def update_fields_def)
  have "filter (\<lambda>(i, d). fst (doc_plan i d) \<noteq> []) (conversations ?s) = conversations ?s"
    by (simp add: doc_plan_fst needs_participants_def needs_updated_at_def js_simps)
  then show ?thesis using done_count [of ?e ?s, OF _ _ c] w by simp
qed

text \<open>C10. Loop invariant: \<open>batch_inv\<close> holds of every state the
  \<open>forEach\<close> loop reaches.  From a state where it holds for the ids seen so
  far, visiting further documents with fresh, distinct ids keeps it for the
  enlarged set of ids: each document contributes at most one write, to itself,
  and \<open>updated\<close> is incremented exactly with each staged write.\<close>

theorem loop_batch_invariant:
  assumes "batch_inv seen st" and "distinct (map fst docs)"
    and "set (map fst docs) \<inter> seen = {}"
  shows "batch_inv (seen \<union> set (map fst docs)) (visit_docs st docs)"
proof -
  have sub: "set (map fst (staged_writes docs)) \<subseteq> set (map fst docs)"
    by (rule staged_writes_ids)
  have "distinct (map fst (staged_writes docs))"
    using assms(2) by (rule staged_writes_distinct)
  moreover from assms(1) have "set (map fst (ls_batch st)) \<subseteq> seen" by (simp add: batch_inv_def)
  with assms(3) sub have "set (map fst (ls_batch st)) \<inter> set (map fst (staged_writes docs)) = {}"
    by blast
  ultimately show ?thesis using assms(1) sub
    by (auto simp: batch_inv_def visit_docs_eq)
qed

theorem loop_batch_invariant_witness:
  "batch_inv ({} \<union> set (map fst [(''c1'', [''createdAt'' \<mapsto> JTimestamp 5]), (''c2'', Map.empty)]))
     (visit_docs \<lparr>ls_batch = [], ls_updated = 0, ls_log = []\<rparr>
        [(''c1'', [''createdAt'' \<mapsto> JTimestamp 5]), (''c2'', Map.empty)])"
  by (rule loop_batch_invariant) (simp_all add: batch_inv_def)

text \<open>C14. \<open>createdAt || serverTimestamp()\<close> tests truthiness, not presence:
  a document whose \<open>createdAt\<close> is present but falsy (for example \<open>null\<close>)
  gets the server timestamp, not its \<open>createdAt\<close>.\<close>

theorem falsy_created_at_uses_server_time:
  assumes "needs_updated_at d" and "\<not> truthy (get_field d ''createdAt'')"
  shows "map_of (fst (doc_plan i d)) ''updatedAt'' = Some JServerTimestamp"
  using assms by (simp add: doc_plan_fst js_simps)

theorem falsy_created_at_uses_server_time_witness:
  "map_of (fst (doc_plan ''c1'' [''createdAt'' \<mapsto> JNull])) ''updatedAt'' = Some JServerTimestamp"
  using falsy_created_at_uses_server_time [of "[''createdAt'' \<mapsto> JNull]" "''c1''"]
  by (simp add: needs_updated_at_def js_simps)

text \<open>C15. \<open>!data.updatedAt\<close> tests truthiness, not presence: a document
  whose \<open>updatedAt\<close> is present but falsy (\<open>null\<close>, \<open>0\<close>, the empty string)
  is included in the batch and its \<open>updatedAt\<close> overwritten.\<close>

theorem falsy_updated_at_overwritten:
  assumes "d ''updatedAt'' = Some v" and "\<not> truthy v"
  shows "''updatedAt'' \<in> set (obj_keys (fst (doc_plan i d)))"
  using assms by (simp add: doc_plan_fst needs_updated_at_def obj_keys_def js_simps)

theorem falsy_updated_at_overwritten_witness:
  "''updatedAt'' \<in> set (obj_keys (fst (doc_plan ''c1''
      [''participants'' \<mapsto> JArray [], ''updatedAt'' \<mapsto> JNumber 0])))"
  using falsy_updated_at_overwritten [of "[''participants'' \<mapsto> JArray [], ''updatedAt'' \<mapsto> JNumber 0]"]
  by simp

lemma staged_log_events:
  "ev \<in> set (staged_log docs) \<Longrightarrow>
   (\<exists>i a b. ev = LogParticipants i a b) \<or> (\<exists>i. ev = LogUpdatedAt i)"
  by (auto simp: staged_log_def doc_plan_snd split: if_splits)

lemma staged_writes_length: "length (staged_writes docs) \<le> length docs"
  by (simp add: staged_writes_def)

lemma LogUpdatedAt_staged_log:
  "LogUpdatedAt i \<in> set (staged_log docs) \<longleftrightarrow> (\<exists>d. (i, d) \<in> set docs \<and> needs_updated_at d)"
  by (auto simp: staged_log_def doc_plan_snd)

text \<open>C16. The \<open>forEach\<close> loop, run from the state the try block starts it in,
  is the reference computation: the batch is the non-empty update objects of the
  snapshot in snapshot order, \<open>updated\<close> is their number, and the console
  gets the per-document messages in snapshot order.\<close>

theorem visit_docs_reference:
  "visit_docs \<lparr>ls_batch = new_batch, ls_updated = 0, ls_log = [LogFound n]\<rparr> docs =
     \<lparr>ls_batch = staged_writes docs, ls_updated = length (staged_writes docs),
      ls_log = LogFound n # staged_log docs\<rparr>"
  by (simp add: visit_docs_eq store_simps)

text \<open>C17. Bounds on the reported count: a \<open>LogDone n\<close> message reports at
  least one and at most as many documents as the read returned.\<close>

theorem done_count_bounds:
  assumes "LogDone n \<in> set (console (migrateConversations e s))"
  shows "0 < n \<and> n \<le> length (conversations s)"
proof -
  from assms have "LogDone n \<notin> set (staged_log (conversations s))"
    using staged_log_events [of "LogDone n"] by blast
  with assms have "n = length (staged_writes (conversations s)) \<and> staged_writes (conversations s) \<noteq> []"
    by (auto simp: migrateConversations_eq Let_def split: if_splits sum.splits)
  then show ?thesis using staged_writes_length [of "conversations s"] by simp
qed

theorem done_count_bounds_witness:
  "LogDone 1 \<in> set (console (migrateConversations
      \<lparr>fetch_ok = True, commit_ok = True, write_limit = 500, commit_time = 7\<rparr>
      \<lparr>conversations = [(''c1'', [''createdAt'' \<mapsto> JTimestamp 5]), (''c2'', [''participants'' \<mapsto> JArray [], ''updatedAt'' \<mapsto> JTimestamp 1])]\<rparr>)) \<and>
   0 < (1::nat) \<and> (1::nat) \<le> length [(''c1'', [''createdAt'' \<mapsto> JTimestamp (5::nat)]), (''c2'', [''participants'' \<mapsto> JArray [], ''updatedAt'' \<mapsto> JTimestamp 1])]"
proof -
  let ?e = "\<lparr>fetch_ok = True, commit_ok = True, write_limit = 500, commit_time = 7\<rparr>"
  let ?s = "\<lparr>conversations = [(''c1'', [''createdAt'' \<mapsto> JTimestamp (5::nat)]), (''c2'', [''participants'' \<mapsto> JArray [], ''updatedAt'' \<mapsto> JTimestamp 1])]\<rparr>"
  have ok: "LogDone 1 \<in> set (console (migrateConversations ?e ?s))"
    by (simp add: migrateConversations_eq Let_def staged_writes_def doc_plan_fst needs_participants_def
        needs_updated_at_def js_simps batch_commit_def update_fields_def)
  from done_count_bounds [OF ok] ok show ?thesis by simp
qed

text \<open>C18. Shape of every update the \<open>forEach\<close> loop stages with
  \<open>batch.update\<close> (line 34), read off the batch the loop builds: it is not empty, has at most the two keys
  \<open>participants\<close> and \<open>updatedAt\<close>, each once, and no value is
  \<open>undefined\<close> or any other falsy value, which the SDK would reject.\<close>

theorem staged_update_shape:
  assumes "(i, u) \<in> set (ls_batch (visit_docs \<lparr>ls_batch = new_batch, ls_updated = 0, ls_log = l\<rparr> docs))"
  shows "u \<noteq> [] \<and> length u \<le> 2 \<and> distinct (map fst u) \<and>
         set (map fst u) \<subseteq> {''participants'', ''updatedAt''} \<and>
         (\<forall>kv \<in> set u. truthy (snd kv))"
proof -
  from assms have "(i, u) \<in> set (staged_writes docs)"
    by (simp add: visit_docs_eq store_simps)
  then obtain d where u: "u = fst (doc_plan i d)" and ne: "u \<noteq> []"
    by (auto simp: staged_writes_def)
  have "distinct (map fst u)" unfolding u by (rule doc_plan_keys_distinct)
  with u ne show ?thesis by (auto simp: doc_plan_fst js_simps)
qed

theorem staged_update_shape_witness:
  "(''c1'', [(''participants'', JArray [JString ''S'', JString ''B'']), (''updatedAt'', JServerTimestamp)])
     \<in> set (ls_batch (visit_docs \<lparr>ls_batch = new_batch, ls_updated = 0, ls_log = []\<rparr>
          [(''c1'', [''sellerId'' \<mapsto> JString ''S'', ''buyerId'' \<mapsto> JString ''B'']), (''c2'', Map.empty)])) \<and>
   length [(''participants'', JArray [JString ''S'', JString ''B'']), (''updatedAt'', JServerTimestamp)] \<le> 2"
proof -
  have m: "(''c1'', [(''participants'', JArray [JString ''S'', JString ''B'']), (''updatedAt'', JServerTimestamp)])
      \<in> set (ls_batch (visit_docs \<lparr>ls_batch = new_batch, ls_updated = 0, ls_log = []\<rparr>
          [(''c1'', [''sellerId'' \<mapsto> JString ''S'', ''buyerId'' \<mapsto> JString ''B'']), (''c2'', Map.empty)]))"
    by (simp add: visit_docs_eq store_simps staged_writes_def doc_plan_fst needs_participants_def
        needs_updated_at_def js_simps)
  from staged_update_shape [OF m] m show ?thesis by blast
qed

text \<open>C19. The console names exactly the documents that needed
  \<open>updatedAt\<close>: once the read succeeds, \<open>LogUpdatedAt i\<close> is logged iff the
  snapshot holds a document \<open>i\<close> whose \<open>updatedAt\<close> is falsy, whether or
  not the commit then succeeds.\<close>

theorem console_updated_at_iff:
  assumes "fetch_ok e"
  shows "LogUpdatedAt i \<in> set (console (migrateConversations e s)) \<longleftrightarrow>
         (\<exists>d. (i, d) \<in> set (conversations s) \<and> needs_updated_at d)"
  using assms by (auto simp: migrateConversations_eq Let_def LogUpdatedAt_staged_log [symmetric]
      split: sum.splits)

theorem console_updated_at_iff_witness:
  "LogUpdatedAt ''c1'' \<in> set (console (migrateConversations
      \<lparr>fetch_ok = True, commit_ok = False, write_limit = 500, commit_time = 7\<rparr>
      \<lparr>conversations = [(''c1'', [''updatedAt'' \<mapsto> JNull])]\<rparr>))"
  using console_updated_at_iff [of "\<lparr>fetch_ok = True, commit_ok = False, write_limit = 500, commit_time = 7\<rparr>"
      "''c1''" "\<lparr>conversations = [(''c1'', [''updatedAt'' \<mapsto> JNull])]\<rparr>"]
  by (simp add: needs_updated_at_def js_simps)

end
