(* ===== verification/Spec2Isabelle.thy ===== *)
theory Spec2Isabelle
  imports Migration
begin

text \<open>
  \<^bold>\<open>A verification model of \<open>src/scripts/browser_migration.js\<close>.\<close>

  \<^bold>\<open>The program.\<close> One browser-console function, \<open>migrateConversations\<close>,
  backfills two fields of every document of the Firestore collection
  \<open>conversations\<close>: it reads the whole collection, computes for each document
  an update object (\<open>participants = [sellerId, buyerId]\<close> when
  \<open>participants\<close> is not an array and both ids are truthy;
  \<open>updatedAt = createdAt || serverTimestamp()\<close> when \<open>updatedAt\<close> is falsy),
  stages the non-empty ones in one write batch, commits it when it is not
  empty, and logs its progress; a \<open>catch\<close> logs any error.  Two parts
  interact: the script, and the document store it reaches through the global
  \<open>firebase\<close> handle.

  \<^bold>\<open>Theories.\<close>
  \<^item> \<open>Prelude\<close>: type names (\<open>docid\<close>, \<open>fieldname\<close>), the rule collections
    \<open>js_simps\<close>, \<open>store_simps\<close>, \<open>migration_simps\<close>, and lemmas on
    association lists and maps (\<open>override_with\<close>, \<open>foldl_upd_override\<close>).
  \<^item> \<open>JsValue\<close>: the JavaScript values a document holds (\<open>jsval\<close>, with
    \<open>undefined\<close> for an absent field and the server-timestamp sentinel) and the
    primitives the script uses: \<open>truthy\<close> (ToBoolean, lines 18, 20, 23, 28),
    \<open>is_array\<close> (\<open>Array.isArray\<close>, line 17), \<open>js_and\<close>/\<open>js_or\<close> (\<open>&&\<close> at
    line 23, \<open>||\<close> at line 29), \<open>get_field\<close> (\<open>data.f\<close>), \<open>obj_set\<close> and
    \<open>obj_keys\<close> (lines 21 to 33).  Numbers are integers with NaN apart: the
    script only tests their truthiness.
  \<^item> \<open>Firestore\<close>: the store (a \<open>store\<close> record holding the collection as a
    list of id and fields, in the order \<open>get()\<close> returns it), its read
    \<open>collection_get\<close>, the write batch (\<open>new_batch\<close>, \<open>batch_update\<close>) and
    \<open>batch_commit\<close>: every update needs an existing document, updates apply in
    order, the sentinel becomes the commit time (\<open>resolve_sentinel\<close>), and any
    failure rejects the whole batch.  This is SDK behaviour, modelled from the
    contract of \<open>spec.md\<close> sections 3, 6 and 7; the environment
    \<open>store_env\<close> injects a failing read, a rejecting commit, the batch size
    limit and the commit time.  Its invariant \<open>wf_store\<close> is unique ids.
  \<^item> \<open>Migration\<close>: the script, lines 4 to 50.  \<open>doc_plan\<close> is lines 16 to 32
    for one document (update object and messages), \<open>visit_doc\<close> the
    \<open>forEach\<close> callback, \<open>visit_docs\<close> the loop, \<open>migrate_try\<close> the try block
    and \<open>migrateConversations\<close> the function with its catch.  Its state is the
    record \<open>loop_state\<close> (\<open>batch\<close>, \<open>updated\<close>, the console so far); the run's
    observable result \<open>run_result\<close> is the final store and the console, a list
    of \<open>log_event\<close>, one per \<open>console.log\<close>/\<open>console.error\<close> call.
    \<open>staged_writes\<close> and \<open>staged_log\<close> read the loop's effect as a function
    of the snapshot (\<open>visit_docs_eq\<close>), and \<open>migrateConversations_eq\<close> is the
    closed form of a run that all claims about runs start from.
  \<^item> This theory: the abstract specification \<open>backfill_doc\<close>/\<open>backfill\<close>
    (spec section 4.1, field by field) and the properties spanning both parts.

  \<^bold>\<open>What is proved.\<close> Refinement of the abstract backfill by a successful run
  (C1); the seller-first order of \<open>participants\<close> (C2); idempotence (C3);
  atomicity: every failed run leaves the store unchanged (C4); the spec's
  testable properties on single documents: selective update, skip on
  incomplete ids (C5, C6); no-op success without any write (C7); the fetch
  error path (C8); the reported count (C9); preservation of the store
  loop invariant on the staged batch (C10); the frame of a run (C11); the schema postcondition (C12);
  that a collection with more pending updates than the batch limit can never
  be migrated (C13); the truthiness-versus-presence tests of \<open>createdAt\<close> and
  \<open>updatedAt\<close> (C14, C15); the \<open>forEach\<close> loop against its reference
  reading (C16); bounds on the reported count (C17); the shape of every update
  the loop hands to \<open>batch.update\<close>, with no \<open>undefined\<close> value (C18); and the
  console naming exactly the documents that needed \<open>updatedAt\<close> (C19).  In \<open>Firestore\<close>, the commit applies a batch
  as a whole, in any order (\<open>batch_commit_effect\<close>), and fails when a staged
  document has disappeared (\<open>commit_missing_doc_fails\<close>).  No loop needs fuel: the only loop is the structural \<open>forEach\<close>.

  \<^bold>\<open>Not modelled.\<close> The text of the console messages (only which message
  and the values it interpolates); emoji and string formatting are I/O.
  JavaScript numbers beyond integers and NaN (only their truthiness is read).
  The asynchronous scheduling of the two \<open>await\<close>s and writers running
  concurrently with the script are reduced to their effect: the store the
  commit sees.  Within one run the commit sees the store that was read, so a
  document deleted in between does not arise in the run model;
  \<open>commit_missing_doc_fails\<close> only shows what the store would then do.  The promise the
  function returns is always \<open>undefined\<close>, so the result holds no value.
  The SDK's synchronous validation in \<open>batch.update\<close> (it throws on an
  \<open>undefined\<close> value) is not modelled: C18 shows the script never hands it one.
\<close>

definition backfill_doc :: "nat \<Rightarrow> fields \<Rightarrow> fields" where
  "backfill_doc t d =
     (let seller = get_field d ''sellerId''; buyer = get_field d ''buyerId''
      in (\<lambda>f. if f = ''participants'' \<and> \<not> is_array (get_field d ''participants'') \<and>
                 truthy seller \<and> truthy buyer
              then Some (JArray [seller, buyer])
              else if f = ''updatedAt'' \<and> \<not> truthy (get_field d ''updatedAt'')
              then Some (if truthy (get_field d ''createdAt'')
                         then resolve_sentinel t (get_field d ''createdAt'') else JTimestamp t)
              else d f))"

definition backfill :: "nat \<Rightarrow> collection \<Rightarrow> collection" where
  "backfill t c = map (\<lambda>(i, d). (i, backfill_doc t d)) c"

lemma update_fields_doc_plan:
  "update_fields t (fst (doc_plan i d)) d = backfill_doc t d"
  by (auto simp: update_fields_distinct doc_plan_keys_distinct override_with_def doc_plan_fst
      backfill_doc_def needs_participants_def needs_updated_at_def js_or_def fun_eq_iff)

lemma batch_effect_staged:
  assumes "distinct (map fst c)"
  shows "batch_effect t (staged_writes c) c = backfill t c"
  unfolding batch_effect_def backfill_def
proof (rule map_cong [OF refl])
  fix x assume x: "x \<in> set c"
  obtain i d where id: "x = (i, d)" by fastforce
  with assms x have "map_of c i = Some d" by simp
  with assms have "map_of (staged_writes c) i =
      (if fst (doc_plan i d) = [] then None else Some (fst (doc_plan i d)))"
    by (simp add: map_of_staged_writes)
  then show "(case x of (i, d) \<Rightarrow> (i, case map_of (staged_writes c) i of None \<Rightarrow> d
                | Some u \<Rightarrow> update_fields t u d)) = (case x of (i, d) \<Rightarrow> (i, backfill_doc t d))"
    using update_fields_doc_plan [of t i d] id by (auto simp: update_fields_def)
qed

lemma commit_staged_backfill:
  assumes "wf_store s" and "batch_commit e (staged_writes (conversations s)) s = Inr s'"
  shows "conversations s' = backfill (commit_time e) (conversations s)"
proof -
  let ?c = "conversations s"
  from assms(1) have d: "distinct (map fst ?c)" by (simp add: wf_store_def)
  then have "apply_writes (commit_time e) (staged_writes ?c) ?c =
      Inr (batch_effect (commit_time e) (staged_writes ?c) ?c)"
    by (intro apply_writes_effect staged_writes_distinct staged_writes_ids)
  with assms(2) d show ?thesis by (auto simp: batch_commit_Inr batch_effect_staged)
qed

lemma backfill_idle:
  "\<forall>(i, d) \<in> set c. fst (doc_plan i d) = [] \<Longrightarrow> backfill t c = c"
  unfolding backfill_def
proof (rule map_idI)
  fix x assume "\<forall>(i, d) \<in> set c. fst (doc_plan i d) = []" and "x \<in> set c"
  moreover obtain i d where x: "x = (i, d)" by fastforce
  ultimately have "fst (doc_plan i d) = []" by auto
  then have "backfill_doc t d = d"
    using update_fields_doc_plan [of t i d] by (simp add: update_fields_def)
  with x show "(case x of (i, d) \<Rightarrow> (i, backfill_doc t d)) = x" by simp
qed

lemma run_success:
  assumes "wf_store s" and "fetch_ok e" and "commit_ok e"
    and "length (staged_writes (conversations s)) \<le> write_limit e"
  shows "conversations (final_store (migrateConversations e s)) = backfill (commit_time e) (conversations s)"
proof (cases "staged_writes (conversations s) = []")
  case True
  with assms(2) show ?thesis
    by (simp add: migrateConversations_eq backfill_idle staged_writes_Nil_iff)
next
  case False
  let ?c = "conversations s"
  from assms(1) have d: "distinct (map fst ?c)" by (simp add: wf_store_def)
  then have "apply_writes (commit_time e) (staged_writes ?c) ?c =
      Inr (batch_effect (commit_time e) (staged_writes ?c) ?c)"
    by (intro apply_writes_effect staged_writes_distinct staged_writes_ids)
  with assms False have "batch_commit e (staged_writes ?c) s =
      Inr (s\<lparr>conversations := batch_effect (commit_time e) (staged_writes ?c) ?c\<rparr>)"
    by (simp add: batch_commit_def)
  with assms(2) False d show ?thesis
    by (simp add: migrateConversations_eq batch_effect_staged)
qed

lemma get_field_backfill_doc:
  "get_field (backfill_doc t d) f =
     (if f = ''participants'' \<and> needs_participants d \<and>
         truthy (get_field d ''sellerId'') \<and> truthy (get_field d ''buyerId'')
      then JArray [get_field d ''sellerId'', get_field d ''buyerId'']
      else if f = ''updatedAt'' \<and> needs_updated_at d
      then (if truthy (get_field d ''createdAt'')
            then resolve_sentinel t (get_field d ''createdAt'') else JTimestamp t)
      else get_field d f)"
  by (simp add: backfill_doc_def Let_def get_field_def needs_participants_def needs_updated_at_def)

lemma truthy_resolve_sentinel [js_simps]: "truthy (resolve_sentinel t v) = truthy v"
  by (cases v) simp_all

lemma backfill_doc_complete:
  "truthy (get_field (backfill_doc t d) ''updatedAt'') \<and>
   (truthy (get_field (backfill_doc t d) ''sellerId'') \<and> truthy (get_field (backfill_doc t d) ''buyerId'')
      \<longrightarrow> is_array (get_field (backfill_doc t d) ''participants''))"
  by (auto simp: get_field_backfill_doc needs_participants_def needs_updated_at_def js_simps)

lemma doc_plan_backfill_doc: "doc_plan i (backfill_doc t d) = ([], [])"
  using backfill_doc_complete [of t d]
  by (auto simp: prod_eq_iff doc_plan_fst doc_plan_snd needs_participants_def needs_updated_at_def)

lemma staged_backfill_Nil:
  "staged_writes (backfill t c) = [] \<and> staged_log (backfill t c) = []"
  by (induction c) (auto simp: backfill_def staged_writes_def staged_log_def doc_plan_backfill_doc)

lemma map_fst_backfill [simp]: "map fst (backfill t c) = map fst c"
  by (induction c) (auto simp: backfill_def)

lemma map_of_backfill:
  "map_of (backfill t c) i = map_option (backfill_doc t) (map_of c i)"
  unfolding backfill_def by (rule map_of_map_snd)

lemmas example_eval = staged_writes_def doc_plan_fst needs_participants_def needs_updated_at_def
  wf_store_def js_simps

text \<open>C1. Refinement: on a well-formed store, a run whose read succeeds and
  whose store accepts the batch turns the collection into the abstract backfill
  of the specification (\<open>spec.md\<close> section 4.1, step 3), document by document:
  \<open>participants\<close> set to \<open>[sellerId, buyerId]\<close> where it is not an array and
  both ids are truthy, \<open>updatedAt\<close> set to \<open>createdAt\<close> or the commit time
  where it is falsy, every other field and document unchanged.\<close>

theorem migration_refines_backfill:
  assumes "wf_store s" and "fetch_ok e" and "commit_ok e"
    and "length (staged_writes (conversations s)) \<le> write_limit e"
  shows "conversations (final_store (migrateConversations e s)) =
           backfill (commit_time e) (conversations s)"
  using run_success [OF assms] .

theorem migration_refines_backfill_witness:
  "conversations (final_store (migrateConversations
      \<lparr>fetch_ok = True, commit_ok = True, write_limit = 500, commit_time = 9\<rparr>
      \<lparr>conversations = [(''c1'', [''sellerId'' \<mapsto> JString ''S1'', ''buyerId'' \<mapsto> JString ''B1'']),
                        (''c2'', [''buyerId'' \<mapsto> JString ''B2''])]\<rparr>)) =
   backfill 9 [(''c1'', [''sellerId'' \<mapsto> JString ''S1'', ''buyerId'' \<mapsto> JString ''B1'']),
               (''c2'', [''buyerId'' \<mapsto> JString ''B2''])]"
  using migration_refines_backfill [of "\<lparr>conversations = [(''c1'', [''sellerId'' \<mapsto> JString ''S1'', ''buyerId'' \<mapsto> JString ''B1'']),
                        (''c2'', [''buyerId'' \<mapsto> JString ''B2''])]\<rparr>"
      "\<lparr>fetch_ok = True, commit_ok = True, write_limit = 500, commit_time = 9\<rparr>"]
  by (simp add: example_eval)

text \<open>C3. Idempotence: after a successful run on a well-formed store, a second
  run (against any store environment whose read succeeds) stages nothing,
  issues no commit, leaves the store unchanged and reports that nothing was
  needed.\<close>

theorem migration_idempotent:
  assumes "wf_store s" and "fetch_ok e" and "commit_ok e"
    and "length (staged_writes (conversations s)) \<le> write_limit e" and "fetch_ok e'"
  shows "migrateConversations e' (final_store (migrateConversations e s)) =
           \<lparr>final_store = final_store (migrateConversations e s),
            console = [LogStart, LogFound (length (conversations s)), LogNothingToDo]\<rparr>"
proof -
  let ?s1 = "final_store (migrateConversations e s)"
  from assms(1-4) have c: "conversations ?s1 = backfill (commit_time e) (conversations s)"
    by (rule run_success)
  then have "length (conversations ?s1) = length (conversations s)"
    by (simp add: backfill_def)
  with c assms(5) show ?thesis
    by (simp add: migrateConversations_eq staged_backfill_Nil)
qed

theorem migration_idempotent_witness:
  "migrateConversations \<lparr>fetch_ok = True, commit_ok = False, write_limit = 0, commit_time = 10\<rparr>
     (final_store (migrateConversations
        \<lparr>fetch_ok = True, commit_ok = True, write_limit = 500, commit_time = 9\<rparr>
        \<lparr>conversations = [(''c1'', [''sellerId'' \<mapsto> JString ''S1'', ''buyerId'' \<mapsto> JString ''B1'']),
                          (''c2'', [''buyerId'' \<mapsto> JString ''B2''])]\<rparr>)) =
   \<lparr>final_store = final_store (migrateConversations
        \<lparr>fetch_ok = True, commit_ok = True, write_limit = 500, commit_time = 9\<rparr>
        \<lparr>conversations = [(''c1'', [''sellerId'' \<mapsto> JString ''S1'', ''buyerId'' \<mapsto> JString ''B1'']),
                          (''c2'', [''buyerId'' \<mapsto> JString ''B2''])]\<rparr>),
    console = [LogStart, LogFound 2, LogNothingToDo]\<rparr>"
  using migration_idempotent [of "\<lparr>conversations = [(''c1'', [''sellerId'' \<mapsto> JString ''S1'', ''buyerId'' \<mapsto> JString ''B1'']),
                          (''c2'', [''buyerId'' \<mapsto> JString ''B2''])]\<rparr>"
      "\<lparr>fetch_ok = True, commit_ok = True, write_limit = 500, commit_time = 9\<rparr>"
      "\<lparr>fetch_ok = True, commit_ok = False, write_limit = 0, commit_time = 10\<rparr>"]
  by (simp add: example_eval)

text \<open>C11. Frame: a run never creates, deletes or reorders documents, and in a
  well-formed store it changes no field other than \<open>participants\<close> and
  \<open>updatedAt\<close>, whatever the store's failures.\<close>

theorem run_frame:
  assumes "wf_store s"
    and "map_of (conversations s) i = Some d"
    and "map_of (conversations (final_store (migrateConversations e s))) i = Some d'"
    and "f \<noteq> ''participants''" and "f \<noteq> ''updatedAt''"
  shows "map fst (conversations (final_store (migrateConversations e s))) = map fst (conversations s) \<and>
         d' f = d f"
  using run_store_cases [of e s]
proof
  assume "final_store (migrateConversations e s) = s"
  with assms show ?thesis by simp
next
  assume ok: "fetch_ok e \<and> staged_writes (conversations s) \<noteq> [] \<and>
    batch_commit e (staged_writes (conversations s)) s = Inr (final_store (migrateConversations e s)) \<and>
    console (migrateConversations e s) = LogStart # LogFound (length (conversations s)) #
      staged_log (conversations s) @ [LogDone (length (staged_writes (conversations s)))]"
  then have c: "conversations (final_store (migrateConversations e s)) =
      backfill (commit_time e) (conversations s)"
    using assms(1) by (auto intro: commit_staged_backfill)
  with assms(2,3) have "d' = backfill_doc (commit_time e) d" by (simp add: map_of_backfill)
  with c assms(4,5) show ?thesis by (simp add: backfill_doc_def Let_def)
qed

theorem run_frame_witness:
  "map fst (conversations (final_store (migrateConversations
      \<lparr>fetch_ok = True, commit_ok = True, write_limit = 500, commit_time = 9\<rparr>
      \<lparr>conversations = [(''c1'', [''sellerId'' \<mapsto> JString ''S1'', ''buyerId'' \<mapsto> JString ''B1''])]\<rparr>))) = [''c1''] \<and>
   the (map_of (conversations (final_store (migrateConversations
      \<lparr>fetch_ok = True, commit_ok = True, write_limit = 500, commit_time = 9\<rparr>
      \<lparr>conversations = [(''c1'', [''sellerId'' \<mapsto> JString ''S1'', ''buyerId'' \<mapsto> JString ''B1''])]\<rparr>))) ''c1'')
     ''sellerId'' = Some (JString ''S1'')"
proof -
  let ?e = "\<lparr>fetch_ok = True, commit_ok = True, write_limit = 500, commit_time = 9\<rparr>"
  let ?s = "\<lparr>conversations = [(''c1'', [''sellerId'' \<mapsto> JString ''S1'', ''buyerId'' \<mapsto> JString ''B1''])]\<rparr>"
  let ?r = "conversations (final_store (migrateConversations ?e ?s))"
  have wf: "wf_store ?s" by (simp add: wf_store_def)
  have ids: "map fst ?r = [''c1'']"
    using run_store_cases [of ?e ?s] by (auto dest: batch_commit_ids)
  then obtain d' where d': "map_of ?r ''c1'' = Some d'"
    by (cases ?r) auto
  have "map fst ?r = map fst (conversations ?s) \<and> d' ''sellerId'' = Some (JString ''S1'')"
    using run_frame [OF wf _ d', of "[''sellerId'' \<mapsto> JString ''S1'', ''buyerId'' \<mapsto> JString ''B1'']" "''sellerId''"]
    by simp
  with d' show ?thesis by simp
qed

text \<open>C12. Postcondition: after a successful run on a well-formed store every
  document has a truthy \<open>updatedAt\<close>, and every document with a truthy
  \<open>sellerId\<close> and \<open>buyerId\<close> has an array \<open>participants\<close>.\<close>

theorem run_postcondition:
  assumes "wf_store s" and "fetch_ok e" and "commit_ok e"
    and "length (staged_writes (conversations s)) \<le> write_limit e"
    and "(i, d) \<in> set (conversations (final_store (migrateConversations e s)))"
  shows "truthy (get_field d ''updatedAt'') \<and>
         (truthy (get_field d ''sellerId'') \<and> truthy (get_field d ''buyerId'')
            \<longrightarrow> is_array (get_field d ''participants''))"
proof -
  from assms(5) run_success [OF assms(1-4)]
  obtain d0 where "d = backfill_doc (commit_time e) d0" by (auto simp: backfill_def)
  then show ?thesis by (simp add: backfill_doc_complete)
qed

theorem run_postcondition_witness:
  "truthy (get_field (backfill_doc 9 [''sellerId'' \<mapsto> JString ''S1'', ''buyerId'' \<mapsto> JString ''B1'']) ''updatedAt'') \<and>
   is_array (get_field (backfill_doc 9 [''sellerId'' \<mapsto> JString ''S1'', ''buyerId'' \<mapsto> JString ''B1'']) ''participants'')"
proof -
  let ?e = "\<lparr>fetch_ok = True, commit_ok = True, write_limit = 500, commit_time = 9\<rparr>"
  let ?s = "\<lparr>conversations = [(''c1'', [''sellerId'' \<mapsto> JString ''S1'', ''buyerId'' \<mapsto> JString ''B1''])]\<rparr>"
  have pre: "wf_store ?s" "fetch_ok ?e" "commit_ok ?e"
    "length (staged_writes (conversations ?s)) \<le> write_limit ?e"
    by (simp_all add: example_eval)
  have "(''c1'', backfill_doc 9 [''sellerId'' \<mapsto> JString ''S1'', ''buyerId'' \<mapsto> JString ''B1''])
      \<in> set (conversations (final_store (migrateConversations ?e ?s)))"
    using run_success [OF pre] by (simp add: backfill_def)
  from run_postcondition [OF pre this] show ?thesis
    by (simp add: get_field_backfill_doc needs_participants_def needs_updated_at_def js_simps)
qed

text \<open>C13. No chunking: when more documents need an update than the store
  accepts in one batch, every run fails with the batch rejected and leaves the
  store as it was, so the migration can never complete (\<open>spec.md\<close> section 9).\<close>

theorem oversized_batch_never_migrates:
  assumes "fetch_ok e" and "write_limit e < length (staged_writes (conversations s))"
  shows "final_store (migrateConversations e s) = s \<and>
         last (console (migrateConversations e s)) = LogError CommitRejected"
proof -
  from assms(2) have ne: "staged_writes (conversations s) \<noteq> []" by auto
  from assms(2) have "batch_commit e (staged_writes (conversations s)) s = Inl CommitRejected"
    by (simp add: batch_commit_def)
  with assms(1) ne show ?thesis by (simp add: migrateConversations_eq Let_def)
qed

theorem oversized_batch_never_migrates_witness:
  "final_store (migrateConversations \<lparr>fetch_ok = True, commit_ok = True, write_limit = 0, commit_time = 9\<rparr>
      \<lparr>conversations = [(''c1'', Map.empty)]\<rparr>) = \<lparr>conversations = [(''c1'', Map.empty)]\<rparr> \<and>
   last (console (migrateConversations \<lparr>fetch_ok = True, commit_ok = True, write_limit = 0, commit_time = 9\<rparr>
      \<lparr>conversations = [(''c1'', Map.empty)]\<rparr>)) = LogError CommitRejected"
  by (rule oversized_batch_never_migrates) (simp_all add: example_eval)

end
